theory Spec2Isabelle
  imports Complex_Main "HOL-Library.Sublist"
begin

section \<open>Lead enrichment: orchestrator, workers and dashboard\<close>

text \<open>
  A shallow embedding of the parts of the lead-enrichment repository that its
  specification makes claims about: the orchestrator (\<^verbatim>\<open>src/orchestrator/handler.py\<close>),
  the polling worker (\<^verbatim>\<open>src/workers/enrichment_worker.py\<close>), the event-triggered
  worker (\<^verbatim>\<open>src/workers/enrichment_worker_ecs_optimized.py\<close>) and the dashboard
  (\<^verbatim>\<open>scripts/monitor.py\<close>).

  Calls to external services (CRM, queue, compute service, browser, AI service) are
  not code of the repository: their outcomes are inputs of the model, either a
  returned value or a raised exception carrying its message.
\<close>

subsection \<open>Python values\<close>

text \<open>
  An exception is its class and the text \<^verbatim>\<open>str(e)\<close> gives. \<open>ServiceError\<close> stands for
  whatever an external client raises.
\<close>

datatype exn_kind =
  ZeroDivisionError | OverflowError | ValueError | KeyError | AttributeError | TypeError
  | ServiceError

datatype exn = Exn exn_kind string

fun str_exn :: "exn \<Rightarrow> string" where
  "str_exn (Exn k msg) = msg"

text \<open>
  A float is a rational (a finite double), an infinity or a NaN; minus zero is not
  told apart from zero. A \<^verbatim>\<open>Decimal\<close> is kept as the string it was constructed from.
  Strings are lists of characters with code points below 256. Dictionaries are
  association lists in insertion order, keyed by strings as JSON objects and
  storage items are.
\<close>

datatype pyfloat = Finite rat | PosInf | NegInf | NaN

datatype pyval =
    PNone
  | PBool bool
  | PInt int
  | PFloat pyfloat
  | PDecimal string
  | PStr string
  | PList "pyval list"
  | PDict "(string \<times> pyval) list"

type_synonym pydict = "(string \<times> pyval) list"

text \<open>
  A \<^verbatim>\<open>Decimal\<close> is zero when it is a number (its text has none of the letters of
  \<^verbatim>\<open>NaN\<close>, \<^verbatim>\<open>sNaN\<close>, \<^verbatim>\<open>Inf\<close> and \<^verbatim>\<open>Infinity\<close>, whatever digits follow them) whose
  coefficient (the part before the exponent) has digits, all of them 0.
\<close>

definition decimal_is_zero :: "string \<Rightarrow> bool" where
  "decimal_is_zero s =
     (let special = list_ex (\<lambda>c. c \<in> set ''nNiI'') s;
          coeff = filter (\<lambda>c. c \<in> set ''0123456789'')
                    (takeWhile (\<lambda>c. c \<noteq> CHR ''e'' \<and> c \<noteq> CHR ''E'') s)
      in \<not> special \<and> coeff \<noteq> [] \<and> list_all (\<lambda>c. c = CHR ''0'') coeff)"

text \<open>Python's truth value of an object, as \<^verbatim>\<open>if x:\<close> tests it.\<close>

fun truthy :: "pyval \<Rightarrow> bool" where
  "truthy PNone = False"
| "truthy (PBool b) = b"
| "truthy (PInt i) = (i \<noteq> 0)"
| "truthy (PFloat f) = (f \<noteq> Finite 0)"
| "truthy (PDecimal s) = (\<not> decimal_is_zero s)"
| "truthy (PStr s) = (s \<noteq> [])"
| "truthy (PList xs) = (xs \<noteq> [])"
| "truthy (PDict kvs) = (kvs \<noteq> [])"

text \<open>\<^verbatim>\<open>d.get(k)\<close> and \<^verbatim>\<open>d.get(k, default)\<close>.\<close>

definition dict_get :: "pydict \<Rightarrow> string \<Rightarrow> pyval" where
  "dict_get d k = (case map_of d k of None \<Rightarrow> PNone | Some v \<Rightarrow> v)"

definition dict_get_default :: "pydict \<Rightarrow> string \<Rightarrow> pyval \<Rightarrow> pyval" where
  "dict_get_default d k dflt = (case map_of d k of None \<Rightarrow> dflt | Some v \<Rightarrow> v)"

text \<open>\<^verbatim>\<open>str(i)\<close> of an integer: its decimal digits, with a minus sign when negative.\<close>

definition digit_char :: "nat \<Rightarrow> char" where
  "digit_char d = ''0123456789'' ! d"

fun digits_nat :: "nat \<Rightarrow> string" where
  "digits_nat n = (if n < 10 then [digit_char n] else digits_nat (n div 10) @ [digit_char (n mod 10)])"

declare digits_nat.simps [simp del]

definition str_int :: "int \<Rightarrow> string" where
  "str_int i = (if i < 0 then CHR ''-'' # digits_nat (nat (- i)) else digits_nat (nat i))"

text \<open>
  What an f-string inserts for a value. It is written out for \<^verbatim>\<open>None\<close>, booleans,
  integers and strings; for floats, decimals, lists and dictionaries it is Python's
  built-in \<^verbatim>\<open>repr\<close>, taken as the parameter \<open>builtin_str\<close>.
\<close>

fun py_str :: "(pyval \<Rightarrow> string) \<Rightarrow> pyval \<Rightarrow> string" where
  "py_str builtin_str PNone = ''None''"
| "py_str builtin_str (PBool b) = (if b then ''True'' else ''False'')"
| "py_str builtin_str (PInt i) = str_int i"
| "py_str builtin_str (PStr s) = s"
| "py_str builtin_str v = builtin_str v"

text \<open>
  \<^verbatim>\<open>str.lower()\<close> and \<^verbatim>\<open>str.strip()\<close> on code points below 256: the upper-case letters
  are A to Z and the accented capitals 192 to 222 except the multiplication sign 215,
  each 32 below its lower-case letter; the white space is 9 to 13, 28 to 32, 133 and
  160.
\<close>

definition upper_chars :: "string" where
  "upper_chars = ''ABCDEFGHIJKLMNOPQRSTUVWXYZ'' @
     [CHR 0xC0, CHR 0xC1, CHR 0xC2, CHR 0xC3, CHR 0xC4, CHR 0xC5, CHR 0xC6, CHR 0xC7,
      CHR 0xC8, CHR 0xC9, CHR 0xCA, CHR 0xCB, CHR 0xCC, CHR 0xCD, CHR 0xCE, CHR 0xCF,
      CHR 0xD0, CHR 0xD1, CHR 0xD2, CHR 0xD3, CHR 0xD4, CHR 0xD5, CHR 0xD6,
      CHR 0xD8, CHR 0xD9, CHR 0xDA, CHR 0xDB, CHR 0xDC, CHR 0xDD, CHR 0xDE]"

definition lower_chars :: "string" where
  "lower_chars = ''abcdefghijklmnopqrstuvwxyz'' @
     [CHR 0xE0, CHR 0xE1, CHR 0xE2, CHR 0xE3, CHR 0xE4, CHR 0xE5, CHR 0xE6, CHR 0xE7,
      CHR 0xE8, CHR 0xE9, CHR 0xEA, CHR 0xEB, CHR 0xEC, CHR 0xED, CHR 0xEE, CHR 0xEF,
      CHR 0xF0, CHR 0xF1, CHR 0xF2, CHR 0xF3, CHR 0xF4, CHR 0xF5, CHR 0xF6,
      CHR 0xF8, CHR 0xF9, CHR 0xFA, CHR 0xFB, CHR 0xFC, CHR 0xFD, CHR 0xFE]"

definition lower_char :: "char \<Rightarrow> char" where
  "lower_char c = (case map_of (zip upper_chars lower_chars) c of None \<Rightarrow> c | Some l \<Rightarrow> l)"

definition lower :: "string \<Rightarrow> string" where
  "lower s = map lower_char s"

definition space_chars :: "string" where
  "space_chars =
     [CHR 0x09, CHR 0x0A, CHR 0x0B, CHR 0x0C, CHR 0x0D, CHR 0x1C, CHR 0x1D, CHR 0x1E,
      CHR 0x1F, CHR 0x20, CHR 0x85, CHR 0xA0]"

definition is_space :: "char \<Rightarrow> bool" where
  "is_space c = (c \<in> set space_chars)"

definition strip :: "string \<Rightarrow> string" where
  "strip s = rev (dropWhile is_space (rev (dropWhile is_space s)))"

text \<open>\<^verbatim>\<open>needle in haystack\<close> on strings.\<close>

fun contains :: "string \<Rightarrow> string \<Rightarrow> bool" where
  "contains needle [] = (needle = [])"
| "contains needle (c # cs) = (prefix needle (c # cs) \<or> contains needle cs)"

subsection \<open>Orchestrator\<close>

text \<open>
  \<^verbatim>\<open>optimal_workers = min(max(2, queued_count // 500), 10)\<close> in
  \<^verbatim>\<open>start_enrichment_job\<close>. Python's \<^verbatim>\<open>//\<close> on integers rounds towards minus
  infinity, as \<open>div\<close> on \<open>int\<close> does.
\<close>

definition optimal_workers :: "int \<Rightarrow> int" where
  "optimal_workers queued_count = min (max 2 (queued_count div 500)) 10"

text \<open>\<^verbatim>\<open>safe_count = min(count, 10)\<close> in \<^verbatim>\<open>start_ecs_workers\<close>.\<close>

definition safe_count :: "int \<Rightarrow> int" where
  "safe_count count = min count 10"

text \<open>The specification's \<^verbatim>\<open>clamp(x, lo, hi)\<close>, written from its words.\<close>

definition clamp :: "int \<Rightarrow> int \<Rightarrow> int \<Rightarrow> int" where
  "clamp x lo hi = (if x < lo then lo else if hi < x then hi else x)"

text \<open>
  The world the orchestrator acts on: the job store, the queue, and the requests it
  has sent to the CRM and to the compute service. What the external services answer
  is the environment: each call either returns or raises. \<open>sf_connect\<close> covers the
  secret lookup (whose failure the handler ignores) and the CRM login; \<open>job_write\<close>
  is the outcome of the job-store write that sets the given status.
\<close>

record ecs_response =
  tasks :: "string list"
  failures :: "string list"

record message =
  msg_job_id :: string
  msg_lead :: pydict
  msg_parameters :: pydict

record orch_env =
  new_job_id :: string
  created_at_text :: string
  sf_connect :: "exn option"
  query_all :: "string \<Rightarrow> exn + pydict list"
  send_message :: "nat \<Rightarrow> exn option"
  run_task :: "int \<Rightarrow> exn + ecs_response"
  job_write :: "string \<Rightarrow> exn option"

record orch_state =
  jobs_table :: "string \<rightharpoonup> (string \<rightharpoonup> pyval)"
  queue :: "message list"
  crm_queries :: "string list"
  ecs_requests :: "int list"

record response =
  statusCode :: int
  body :: pydict

text \<open>The query text of \<^verbatim>\<open>fetch_salesforce_leads\<close>, a triple-quoted literal.\<close>

definition soql_query :: string where
  "soql_query =
     concat (map (\<lambda>l. l @ [CHR 0x0A])
       [[],
        ''        SELECT Id, Company, Website, FirstName, LastName, Email, Phone,'',
        ''               Street, City, State, PostalCode, Country, Title, CreatedDate,'',
        ''               Enriched_First_Name__c, Enriched_Last_Name__c, Enrichment_Completed__c'',
        ''        FROM Lead'',
        ''        WHERE Website != null'',
        ''        AND (Enrichment_Completed__c = false OR Enrichment_Completed__c = null)'',
        ''        AND CreatedById = '' @ [CHR 0x27] @ ''0054V00000GJFtbQAH'' @ [CHR 0x27],
        ''        ORDER BY CreatedDate DESC''])
     @ ''    ''"

text \<open>
  \<^verbatim>\<open>limit = parameters.get('limit', 10000)\<close>, then
  \<^verbatim>\<open>if limit: query += f" LIMIT {limit}"\<close>.
\<close>

definition build_query :: "(pyval \<Rightarrow> string) \<Rightarrow> pydict \<Rightarrow> string" where
  "build_query builtin_str parameters =
     (let limit = dict_get_default parameters ''limit'' (PInt 10000)
      in if truthy limit then soql_query @ '' LIMIT '' @ py_str builtin_str limit
         else soql_query)"

text \<open>One CRM record to one lead; \<^verbatim>\<open>record['Id']\<close> raises when the key is missing.\<close>

definition lead_of_record :: "pydict \<Rightarrow> exn + pydict" where
  "lead_of_record record =
     (case map_of record ''Id'' of
        None \<Rightarrow> Inl (Exn KeyError ([CHR 0x27] @ ''Id'' @ [CHR 0x27]))
      | Some rid \<Rightarrow>
          Inr [(''id'', rid),
               (''company'', dict_get record ''Company''),
               (''website'', dict_get record ''Website''),
               (''email'', dict_get record ''Email''),
               (''phone'', dict_get record ''Phone''),
               (''first_name'', dict_get record ''FirstName''),
               (''last_name'', dict_get record ''LastName''),
               (''title'', dict_get record ''Title''),
               (''created_date'', dict_get record ''CreatedDate''),
               (''address'', PDict
                  [(''street'', dict_get record ''Street''),
                   (''city'', dict_get record ''City''),
                   (''state'', dict_get record ''State''),
                   (''postal_code'', dict_get record ''PostalCode''),
                   (''country'', dict_get record ''Country'')])])"

fun leads_of_records :: "pydict list \<Rightarrow> exn + pydict list" where
  "leads_of_records [] = Inr []"
| "leads_of_records (record # records) =
     (case lead_of_record record of
        Inl e \<Rightarrow> Inl e
      | Inr lead \<Rightarrow>
          (case leads_of_records records of
             Inl e \<Rightarrow> Inl e
           | Inr leads \<Rightarrow> Inr (lead # leads)))"

text \<open>
  \<^verbatim>\<open>fetch_salesforce_leads\<close>: the result, and the list of queries sent to the CRM with
  this one added.
\<close>

definition fetch_salesforce_leads ::
  "(pyval \<Rightarrow> string) \<Rightarrow> (string \<Rightarrow> exn + pydict list) \<Rightarrow> pydict \<Rightarrow> string list
    \<Rightarrow> (exn + pydict list) \<times> string list" where
  "fetch_salesforce_leads builtin_str sf_query_all parameters sent =
     (let query = build_query builtin_str parameters
      in (case sf_query_all query of
            Inl e \<Rightarrow> Inl e
          | Inr records \<Rightarrow> leads_of_records records,
          sent @ [query]))"

text \<open>
  \<^verbatim>\<open>start_ecs_workers\<close>: a raising compute service is caught and gives 0; otherwise the
  number of tasks in the response. The second component is the list of requested
  counts with this one added.
\<close>

definition start_ecs_workers ::
  "(int \<Rightarrow> exn + ecs_response) \<Rightarrow> int \<Rightarrow> int list \<Rightarrow> int \<times> int list" where
  "start_ecs_workers ecs_run_task count requested =
     (let safe = safe_count count
      in (case ecs_run_task safe of
            Inr resp \<Rightarrow> int (length (tasks resp))
          | Inl e \<Rightarrow> 0,
          requested @ [safe]))"

text \<open>
  The loop that sends one message per lead: it stops at the first send that raises,
  with the messages sent so far left on the queue.
\<close>

fun send_leads ::
  "(nat \<Rightarrow> exn option) \<Rightarrow> string \<Rightarrow> pydict \<Rightarrow> pydict list \<Rightarrow> message list \<Rightarrow> nat
    \<Rightarrow> exn option \<times> message list \<times> nat" where
  "send_leads send job_id parameters [] q queued_count = (None, q, queued_count)"
| "send_leads send job_id parameters (lead # leads) q queued_count =
     (case send queued_count of
        Some e \<Rightarrow> (Some e, q, queued_count)
      | None \<Rightarrow>
          send_leads send job_id parameters leads
            (q @ [\<lparr>msg_job_id = job_id, msg_lead = lead, msg_parameters = parameters\<rparr>])
            (Suc queued_count))"

text \<open>
  \<^verbatim>\<open>jobs_table.update_item\<close> with a \<^verbatim>\<open>SET\<close> expression: the attributes are set on the
  item, which is created when the key is new.
\<close>

definition update_item ::
  "(string \<rightharpoonup> (string \<rightharpoonup> pyval)) \<Rightarrow> string \<Rightarrow> (string \<times> pyval) list
    \<Rightarrow> (string \<rightharpoonup> (string \<rightharpoonup> pyval))" where
  "update_item table job_id attrs =
     table(job_id \<mapsto>
       (case table job_id of None \<Rightarrow> [''job_id'' \<mapsto> PStr job_id] | Some item \<Rightarrow> item)
         ++ map_of attrs)"

text \<open>
  The \<^verbatim>\<open>except\<close> branch of \<^verbatim>\<open>start_enrichment_job\<close>: mark the job failed and raise the
  error again. When the write itself raises, that exception leaves the function.
\<close>

definition job_failed ::
  "orch_env \<Rightarrow> string \<Rightarrow> exn \<Rightarrow> orch_state \<Rightarrow> (exn + response) \<times> orch_state" where
  "job_failed env job_id e st =
     (case job_write env ''failed'' of
        Some e' \<Rightarrow> (Inl e', st)
      | None \<Rightarrow>
          (Inl e,
           st\<lparr>jobs_table := update_item (jobs_table st) job_id
                 [(''status'', PStr ''failed''), (''error'', PStr (str_exn e))]\<rparr>))"

definition success_message :: "int \<Rightarrow> int \<Rightarrow> string" where
  "success_message queued_count workers_started =
     ''Job started successfully. Processing '' @ str_int queued_count @ '' leads with ''
       @ str_int workers_started @ '' workers.''"

definition start_enrichment_job ::
  "orch_env \<Rightarrow> (pyval \<Rightarrow> string) \<Rightarrow> pydict \<Rightarrow> orch_state \<Rightarrow> (exn + response) \<times> orch_state" where
  "start_enrichment_job env builtin_str parameters st0 =
     (let job_id = new_job_id env in
      case sf_connect env of
        Some e \<Rightarrow> (Inl e, st0)
      | None \<Rightarrow>
      case job_write env ''fetching_leads'' of
        Some e \<Rightarrow> (Inl e, st0)
      | None \<Rightarrow>
      let st1 = st0\<lparr>jobs_table := (jobs_table st0)(job_id \<mapsto>
                  map_of [(''job_id'', PStr job_id),
                          (''status'', PStr ''fetching_leads''),
                          (''created_at'', PStr (created_at_text env)),
                          (''parameters'', PDict parameters)])\<rparr>;
          (fetched, sent) =
             fetch_salesforce_leads builtin_str (query_all env) parameters (crm_queries st1);
          st2 = st1\<lparr>crm_queries := sent\<rparr>
      in
      case fetched of
        Inl e \<Rightarrow> job_failed env job_id e st2
      | Inr leads \<Rightarrow>
      let leads_found = int (length leads) in
      case job_write env ''queuing_leads'' of
        Some e \<Rightarrow> job_failed env job_id e st2
      | None \<Rightarrow>
      let st3 = st2\<lparr>jobs_table := update_item (jobs_table st2) job_id
                  [(''status'', PStr ''queuing_leads''), (''leads_found'', PInt leads_found)]\<rparr>;
          (send_error, q, n) =
             send_leads (send_message env) job_id parameters leads (queue st3) 0;
          st4 = st3\<lparr>queue := q\<rparr>
      in
      case send_error of
        Some e \<Rightarrow> job_failed env job_id e st4
      | None \<Rightarrow>
      let queued_count = int n;
          (workers_started, requested) =
             start_ecs_workers (run_task env) (optimal_workers queued_count) (ecs_requests st4);
          st5 = st4\<lparr>ecs_requests := requested\<rparr>
      in
      case job_write env ''processing'' of
        Some e \<Rightarrow> job_failed env job_id e st5
      | None \<Rightarrow>
          (Inr \<lparr>statusCode = 200,
                body = [(''job_id'', PStr job_id),
                        (''status'', PStr ''processing''),
                        (''leads_found'', PInt leads_found),
                        (''leads_queued'', PInt queued_count),
                        (''workers_started'', PInt workers_started),
                        (''message'', PStr (success_message queued_count workers_started))]\<rparr>,
           st5\<lparr>jobs_table := update_item (jobs_table st5) job_id
                 [(''status'', PStr ''processing''),
                  (''leads_queued'', PInt queued_count),
                  (''workers_started'', PInt workers_started)]\<rparr>))"

text \<open>
  \<^verbatim>\<open>lambda_handler\<close>. A scheduled event carries \<^verbatim>\<open>source = 'aws.events'\<close>. An event
  that is a string has no \<^verbatim>\<open>get\<close>: the attribute error is caught by the handler's
  own \<^verbatim>\<open>except\<close>, like every exception of \<^verbatim>\<open>start_enrichment_job\<close>, and becomes a
  500 response.
\<close>

datatype event = EventStr string | EventDict pydict

definition error_response :: "exn \<Rightarrow> response" where
  "error_response e = \<lparr>statusCode = 500, body = [(''error'', PStr (str_exn e))]\<rparr>"

definition event_parameters :: "pydict \<Rightarrow> pydict" where
  "event_parameters ev =
     (if dict_get ev ''source'' = PStr ''aws.events''
      then [(''update_salesforce'', PBool True), (''limit'', PInt 10000)]
      else let limit = dict_get ev ''limit'';
               update_salesforce = dict_get_default ev ''update_salesforce'' (PBool False)
           in [(''update_salesforce'', update_salesforce)]
                @ (if truthy limit then [(''limit'', limit)] else []))"

definition lambda_handler ::
  "orch_env \<Rightarrow> (pyval \<Rightarrow> string) \<Rightarrow> event \<Rightarrow> orch_state \<Rightarrow> response \<times> orch_state" where
  "lambda_handler env builtin_str ev st =
     (case ev of
        EventStr s \<Rightarrow>
          (error_response
             (Exn AttributeError
                ([CHR 0x27] @ ''str'' @ [CHR 0x27] @ '' object has no attribute ''
                  @ [CHR 0x27] @ ''get'' @ [CHR 0x27])), st)
      | EventDict d \<Rightarrow>
          (case start_enrichment_job env builtin_str (event_parameters d) st of
             (Inl e, st') \<Rightarrow> (error_response e, st')
           | (Inr r, st') \<Rightarrow> (r, st')))"

text \<open>The status a job has in the store.\<close>

definition job_attr :: "orch_state \<Rightarrow> string \<Rightarrow> string \<Rightarrow> pyval option" where
  "job_attr st job_id attr =
     (case jobs_table st job_id of None \<Rightarrow> None | Some item \<Rightarrow> item attr)"

subsection \<open>Workers: scraping\<close>

text \<open>
  What \<^verbatim>\<open>scrape_website\<close> returns: the URL, the text of the main page, the pages
  followed from it and the time of the scrape.
\<close>

record page =
  page_url :: string
  page_content :: string

record scraped =
  url :: string
  main_content :: string
  additional_pages :: "page list"
  scraped_at :: string

text \<open>
  The browser is external. A link gives its \<^verbatim>\<open>href\<close> attribute (or raises, or has
  none) and, when followed, the text of its page (or raises). An attempt either
  raises before the page is navigated to (starting the automation engine, launching
  the browser, opening the context or the page), or raises in the navigation or
  after it and before the links are followed, or loads the main page: its text, its
  contact and about links, and whether closing the browser raises.
\<close>

record link =
  link_href :: "exn + string option"
  link_text :: "exn + string"

datatype attempt =
    Failed_to_start exn
  | Crashed exn
  | Loaded string "link list" "exn option"

text \<open>
  The body of \<^verbatim>\<open>for link in contact_links[:3]\<close>: a link without \<^verbatim>\<open>href\<close>, a
  \<^verbatim>\<open>mailto:\<close> link and a link whose page fails are skipped.
\<close>

definition follow_link :: "page list \<Rightarrow> link \<Rightarrow> page list" where
  "follow_link pages l =
     (case link_href l of
        Inl e \<Rightarrow> pages
      | Inr None \<Rightarrow> pages
      | Inr (Some h) \<Rightarrow>
          if h \<noteq> [] \<and> \<not> prefix ''mailto:'' h
          then (case link_text l of
                  Inl e \<Rightarrow> pages
                | Inr text \<Rightarrow> pages @ [\<lparr>page_url = h, page_content = text\<rparr>])
          else pages)"

definition follow_links :: "link list \<Rightarrow> page list" where
  "follow_links contact_links = foldl follow_link [] (take 3 contact_links)"

definition retryable_errors :: "string list" where
  "retryable_errors =
     [''timeout'', ''net::err_cert_date_invalid'', ''net::err_connection_refused'',
      ''net::err_connection_timed_out'', ''net::err_name_not_resolved'',
      ''connection closed'', ''connection reset'']"

text \<open>
  \<^verbatim>\<open>any(retry_err.lower() in error_msg.lower() for retry_err in retryable_errors)\<close>
\<close>

definition is_retryable :: "string \<Rightarrow> bool" where
  "is_retryable error_msg =
     list_ex (\<lambda>retry_err. contains (lower retry_err) (lower error_msg)) retryable_errors"

text \<open>
  What the scraper does, in order: the start of an attempt (an iteration of the
  loop), the navigation to the main page with its timeout in milliseconds, which an
  attempt that fails to start does not reach, and a sleep in seconds.
\<close>

datatype scrape_event = Attempt nat | Goto nat int | Sleep int

text \<open>
  \<^verbatim>\<open>scrape_website\<close> of the polling worker: the loop over \<^verbatim>\<open>range(max_retries)\<close>.
  \<open>browser attempt timeout\<close> is what the browser does in that attempt.
\<close>

fun scrape_attempts ::
  "(nat \<Rightarrow> int \<Rightarrow> attempt) \<Rightarrow> string \<Rightarrow> string \<Rightarrow> nat \<Rightarrow> nat list
    \<Rightarrow> scraped option \<times> scrape_event list" where
  "scrape_attempts browser u now max_retries [] = (None, [])"
| "scrape_attempts browser u now max_retries (attempt # rest) =
     (let timeout = 20000 + int attempt * 10000;
          failed = (\<lambda>e reached.
            let error_msg = str_exn e in
            if \<not> is_retryable error_msg \<or> int attempt = int max_retries - 1
            then (None, Attempt attempt # reached)
            else let wait_time = 2 ^ attempt;
                     (r, evs) = scrape_attempts browser u now max_retries rest
                 in (r, Attempt attempt # reached @ Sleep wait_time # evs))
      in case browser attempt timeout of
           Failed_to_start e \<Rightarrow> failed e []
         | Crashed e \<Rightarrow> failed e [Goto attempt timeout]
         | Loaded text_content contact_links closing \<Rightarrow>
             (case closing of
                Some e \<Rightarrow> failed e [Goto attempt timeout]
              | None \<Rightarrow>
                  (Some \<lparr>url = u, main_content = text_content,
                         additional_pages = follow_links contact_links,
                         scraped_at = now\<rparr>,
                   [Attempt attempt, Goto attempt timeout])))"

definition scrape_website ::
  "(nat \<Rightarrow> int \<Rightarrow> attempt) \<Rightarrow> string \<Rightarrow> string \<Rightarrow> nat
    \<Rightarrow> scraped option \<times> scrape_event list" where
  "scrape_website browser u now max_retries =
     scrape_attempts browser u now max_retries [0..<max_retries]"

subsection \<open>Workers: AI extraction\<close>

text \<open>
  \<^verbatim>\<open>all_content = scraped_data['main_content']\<close>, then for each additional page
  \<^verbatim>\<open>all_content += "\n\n" + page['content']\<close>.
\<close>

definition all_content :: "scraped \<Rightarrow> string" where
  "all_content scraped_data =
     foldl (\<lambda>acc p. acc @ [CHR 0x0A, CHR 0x0A] @ page_content p)
       (main_content scraped_data) (additional_pages scraped_data)"

text \<open>
  The prompt is an f-string with two insertions, the company and
  \<^verbatim>\<open>all_content[:3000]\<close>. Its fixed text is the same in both workers up to the second
  insertion; the text after it differs.
\<close>

definition prompt_head :: string where
  "prompt_head =
     concat (map (\<lambda>l. l @ [CHR 0x0A])
       [[]])
   @ ''        Analyze the following website content for company: ''"

definition prompt_middle :: string where
  "prompt_middle =
     concat (map (\<lambda>l. l @ [CHR 0x0A])
       [[],
        ''        '',
        ''        Extract the following information:'',
        ''        1. Business owner/founder'' @ [CHR 0x27] @ ''s first name and last name'',
        ''        2. Complete business address (street, city, state, zip, country)'',
        ''        '',
        ''        Website content:''])
   @ ''        ''"

definition prompt_tail :: string where
  "prompt_tail =
     concat (map (\<lambda>l. l @ [CHR 0x0A])
       [''  # Limit content to avoid token limits'',
        ''        '',
        ''        Return a JSON object with:'',
        ''        {'',
        ''            '' @ [CHR 0x22] @ ''first_name'' @ [CHR 0x22] @ '': '' @ [CHR 0x22] @ ''owner'' @ [CHR 0x27] @ ''s first name OR null if not found'' @ [CHR 0x22] @ '','',
        ''            '' @ [CHR 0x22] @ ''last_name'' @ [CHR 0x22] @ '': '' @ [CHR 0x22] @ ''owner'' @ [CHR 0x27] @ ''s last name OR null if not found'' @ [CHR 0x22] @ '','',
        ''            '' @ [CHR 0x22] @ ''address'' @ [CHR 0x22] @ '': {'',
        ''                '' @ [CHR 0x22] @ ''street'' @ [CHR 0x22] @ '': '' @ [CHR 0x22] @ ''street address OR null if not found'' @ [CHR 0x22] @ '','',
        ''                '' @ [CHR 0x22] @ ''city'' @ [CHR 0x22] @ '': '' @ [CHR 0x22] @ ''city OR null if not found'' @ [CHR 0x22] @ '','',
        ''                '' @ [CHR 0x22] @ ''state'' @ [CHR 0x22] @ '': '' @ [CHR 0x22] @ ''state OR null if not found'' @ [CHR 0x22] @ '','',
        ''                '' @ [CHR 0x22] @ ''postal_code'' @ [CHR 0x22] @ '': '' @ [CHR 0x22] @ ''zip code OR null if not found'' @ [CHR 0x22] @ '','',
        ''                '' @ [CHR 0x22] @ ''country'' @ [CHR 0x22] @ '': '' @ [CHR 0x22] @ ''country OR null if not found'' @ [CHR 0x22],
        ''            },'',
        ''            '' @ [CHR 0x22] @ ''confidence'' @ [CHR 0x22] @ '': 0.0 to 1.0,'',
        ''            '' @ [CHR 0x22] @ ''reasoning'' @ [CHR 0x22] @ '': '' @ [CHR 0x22] @ ''brief explanation'' @ [CHR 0x22],
        ''        }'',
        ''        '',
        ''        IMPORTANT: If information is not found, use null values - never use strings like '' @ [CHR 0x22] @ ''Not found'' @ [CHR 0x22] @ '' or '' @ [CHR 0x22] @ ''Unknown'' @ [CHR 0x22] @ ''.''])
   @ ''        ''"

definition prompt_tail_event :: string where
  "prompt_tail_event =
     concat (map (\<lambda>l. l @ [CHR 0x0A])
       [''  # Limit content to avoid token limits'',
        ''        '',
        ''        Return a JSON object with:'',
        ''        {'',
        ''            '' @ [CHR 0x22] @ ''first_name'' @ [CHR 0x22] @ '': '' @ [CHR 0x22] @ ''owner'' @ [CHR 0x27] @ ''s first name'' @ [CHR 0x22] @ '','',
        ''            '' @ [CHR 0x22] @ ''last_name'' @ [CHR 0x22] @ '': '' @ [CHR 0x22] @ ''owner'' @ [CHR 0x27] @ ''s last name'' @ [CHR 0x22] @ '','',
        ''            '' @ [CHR 0x22] @ ''address'' @ [CHR 0x22] @ '': {'',
        ''                '' @ [CHR 0x22] @ ''street'' @ [CHR 0x22] @ '': '' @ [CHR 0x22] @ ''street address'' @ [CHR 0x22] @ '','',
        ''                '' @ [CHR 0x22] @ ''city'' @ [CHR 0x22] @ '': '' @ [CHR 0x22] @ ''city'' @ [CHR 0x22] @ '','',
        ''                '' @ [CHR 0x22] @ ''state'' @ [CHR 0x22] @ '': '' @ [CHR 0x22] @ ''state'' @ [CHR 0x22] @ '','',
        ''                '' @ [CHR 0x22] @ ''postal_code'' @ [CHR 0x22] @ '': '' @ [CHR 0x22] @ ''zip code'' @ [CHR 0x22] @ '','',
        ''                '' @ [CHR 0x22] @ ''country'' @ [CHR 0x22] @ '': '' @ [CHR 0x22] @ ''country'' @ [CHR 0x22],
        ''            },'',
        ''            '' @ [CHR 0x22] @ ''confidence'' @ [CHR 0x22] @ '': 0.0 to 1.0,'',
        ''            '' @ [CHR 0x22] @ ''reasoning'' @ [CHR 0x22] @ '': '' @ [CHR 0x22] @ ''brief explanation'' @ [CHR 0x22],
        ''        }'',
        ''        '',
        ''        If information is not found, return null values.''])
   @ ''        ''"

definition build_prompt :: "(pyval \<Rightarrow> string) \<Rightarrow> string \<Rightarrow> scraped \<Rightarrow> pydict \<Rightarrow> string" where
  "build_prompt builtin_str tail scraped_data lead =
     prompt_head @ py_str builtin_str (dict_get_default lead ''company'' (PStr ''Unknown''))
       @ prompt_middle @ take 3000 (all_content scraped_data) @ tail"

text \<open>
  \<^verbatim>\<open>extract_information\<close>: \<open>ai\<close> is the completion request followed by
  \<^verbatim>\<open>json.loads\<close>; when either raises the result is \<^verbatim>\<open>None\<close>. The first is the polling
  worker's, the second the event-triggered worker's.
\<close>

definition extract_information ::
  "(string \<Rightarrow> exn + pydict) \<Rightarrow> (pyval \<Rightarrow> string) \<Rightarrow> scraped \<Rightarrow> pydict \<Rightarrow> pydict option" where
  "extract_information ai builtin_str scraped_data lead =
     (case ai (build_prompt builtin_str prompt_tail scraped_data lead) of
        Inl e \<Rightarrow> None
      | Inr result \<Rightarrow> Some result)"

definition extract_information_event ::
  "(string \<Rightarrow> exn + pydict) \<Rightarrow> (pyval \<Rightarrow> string) \<Rightarrow> scraped \<Rightarrow> pydict \<Rightarrow> pydict option" where
  "extract_information_event ai builtin_str scraped_data lead =
     (case ai (build_prompt builtin_str prompt_tail_event scraped_data lead) of
        Inl e \<Rightarrow> None
      | Inr result \<Rightarrow> Some result)"

subsection \<open>Workers: the website cache\<close>

text \<open>
  Times are microseconds since the epoch, the resolution of \<^verbatim>\<open>datetime\<close>. An entry
  holds the content and the time read back from its \<^verbatim>\<open>cached_at\<close> text; \<open>None\<close>
  stands for a text \<^verbatim>\<open>fromisoformat\<close> rejects or a time that cannot be subtracted
  from the current one, both of which raise inside \<^verbatim>\<open>check_cache\<close>.
\<close>

record cache_item =
  content :: scraped
  cached_at :: "int option"

type_synonym cache = "string \<rightharpoonup> cache_item"

text \<open>\<^verbatim>\<open>timedelta.days\<close>: whole days, rounded towards minus infinity.\<close>

definition timedelta_days :: "int \<Rightarrow> int" where
  "timedelta_days microseconds = microseconds div 86400000000"

text \<open>
  \<^verbatim>\<open>check_cache\<close>: \<open>get_ok\<close> says whether the read of the store returns; every
  exception gives \<^verbatim>\<open>None\<close>.
\<close>

definition check_cache :: "bool \<Rightarrow> cache \<Rightarrow> int \<Rightarrow> string \<Rightarrow> scraped option" where
  "check_cache get_ok cache_table now website =
     (if \<not> get_ok then None
      else case cache_table website of
             None \<Rightarrow> None
           | Some item \<Rightarrow>
               (case cached_at item of
                  None \<Rightarrow> None
                | Some cached_time \<Rightarrow>
                    if timedelta_days (now - cached_time) < 1 then Some (content item)
                    else None))"

text \<open>
  \<^verbatim>\<open>cache_content\<close>: a failing write is logged and leaves the store as it was. The
  content has no float, so \<^verbatim>\<open>convert_floats_to_decimal\<close> leaves it as it is.
\<close>

definition cache_content :: "bool \<Rightarrow> cache \<Rightarrow> int \<Rightarrow> string \<Rightarrow> scraped \<Rightarrow> cache" where
  "cache_content put_ok cache_table now website c =
     (if put_ok then cache_table(website \<mapsto> \<lparr>content = c, cached_at = Some now\<rparr>)
      else cache_table)"

text \<open>
  The part of \<^verbatim>\<open>process_lead\<close> that obtains the content of a website (its lines
  "Check cache first" to "Cache the scraped content"): the cached content when the
  cache has a fresh entry, otherwise a scrape, whose result is cached when there is
  one. The clock is read once in \<^verbatim>\<open>check_cache\<close>, and again by the scraper and by
  \<^verbatim>\<open>cache_content\<close>.
\<close>

record worker_env =
  cache_get_ok :: bool
  cache_put_ok :: bool
  browser_session :: "nat \<Rightarrow> int \<Rightarrow> attempt"
  clock_check :: int
  clock_scrape_text :: string
  clock_cache :: int

definition process_lead_content ::
  "worker_env \<Rightarrow> cache \<Rightarrow> string \<Rightarrow> scraped option \<times> cache \<times> scrape_event list" where
  "process_lead_content env cache_table website =
     (case check_cache (cache_get_ok env) cache_table (clock_check env) website of
        Some cached \<Rightarrow> (Some cached, cache_table, [])
      | None \<Rightarrow>
          (case scrape_website (browser_session env) website (clock_scrape_text env) 3 of
             (Some scraped_data, evs) \<Rightarrow>
               (Some scraped_data,
                cache_content (cache_put_ok env) cache_table (clock_cache env) website scraped_data,
                evs)
           | (None, evs) \<Rightarrow> (None, cache_table, evs)))"

subsection \<open>Polling worker: CRM write-back\<close>

text \<open>The name of a value's type, as Python's error messages print it.\<close>

definition type_name :: "pyval \<Rightarrow> string" where
  "type_name v =
     (case v of
        PNone \<Rightarrow> ''NoneType'' | PBool b \<Rightarrow> ''bool'' | PInt i \<Rightarrow> ''int''
      | PFloat f \<Rightarrow> ''float'' | PDecimal d \<Rightarrow> ''decimal.Decimal'' | PStr s \<Rightarrow> ''str''
      | PList xs \<Rightarrow> ''list'' | PDict d \<Rightarrow> ''dict'')"

text \<open>\<^verbatim>\<open>d[k] = v\<close>: an existing key keeps its place, a new key goes to the end.\<close>

fun dict_set :: "pydict \<Rightarrow> string \<Rightarrow> pyval \<Rightarrow> pydict" where
  "dict_set [] k v = [(k, v)]"
| "dict_set ((k', v') # d) k v = (if k' = k then (k, v) # d else (k', v') # dict_set d k v)"

text \<open>\<^verbatim>\<open>sep.join(parts)\<close>: a part that is not a string raises a type error.\<close>

fun str_items :: "nat \<Rightarrow> pyval list \<Rightarrow> exn + string list" where
  "str_items i [] = Inr []"
| "str_items i (v # vs) =
     (case v of
        PStr s \<Rightarrow> (case str_items (Suc i) vs of Inl e \<Rightarrow> Inl e | Inr ss \<Rightarrow> Inr (s # ss))
      | _ \<Rightarrow>
          Inl (Exn TypeError
                (''sequence item '' @ str_int (int i) @ '': expected str instance, ''
                   @ type_name v @ '' found'')))"

fun intercalate :: "string \<Rightarrow> string list \<Rightarrow> string" where
  "intercalate sep [] = []"
| "intercalate sep [s] = s"
| "intercalate sep (s # t # ss) = s @ sep @ intercalate sep (t # ss)"

definition join :: "string \<Rightarrow> pyval list \<Rightarrow> exn + string" where
  "join sep parts =
     (case str_items 0 parts of Inl e \<Rightarrow> Inl e | Inr ss \<Rightarrow> Inr (intercalate sep ss))"

text \<open>The helper \<^verbatim>\<open>is_valid_value\<close> of \<^verbatim>\<open>update_salesforce_lead\<close>.\<close>

definition invalid_strings :: "string list" where
  "invalid_strings = [''not found'', ''unknown'', ''n/a'', ''none'', ''null'', []]"

definition is_valid_value :: "pyval \<Rightarrow> bool" where
  "is_valid_value v =
     (if \<not> truthy v \<or> v = PNone then False
      else case v of
             PStr s \<Rightarrow> (let lower_val = strip (lower s) in lower_val \<notin> set invalid_strings)
           | _ \<Rightarrow> True)"

text \<open>
  One of the seven \<^verbatim>\<open>if is_valid_value(...)\<close> blocks: the value is stored under the
  enriched field and under the standard field.
\<close>

definition set_pair :: "pyval \<Rightarrow> string \<Rightarrow> string \<Rightarrow> pydict \<Rightarrow> pydict" where
  "set_pair v enriched standard update_data =
     (if is_valid_value v then dict_set (dict_set update_data enriched v) standard v
      else update_data)"

definition add_part :: "pyval \<Rightarrow> pyval list \<Rightarrow> pyval list" where
  "add_part v address_parts = (if is_valid_value v then address_parts @ [v] else address_parts)"

text \<open>
  \<^verbatim>\<open>address = extracted_info.get('address') or {}\<close>; an address that is true but not
  a dictionary has no \<^verbatim>\<open>get\<close>, and the first \<^verbatim>\<open>address.get\<close> raises.
\<close>

definition address_of :: "pydict \<Rightarrow> exn + pydict" where
  "address_of extracted_info =
     (let a = dict_get extracted_info ''address''
      in if \<not> truthy a then Inr []
         else case a of
                PDict d \<Rightarrow> Inr d
              | _ \<Rightarrow>
                  Inl (Exn AttributeError
                        ([CHR 0x27] @ type_name a @ [CHR 0x27] @ '' object has no attribute ''
                           @ [CHR 0x27] @ ''get'' @ [CHR 0x27])))"

text \<open>The name and address fields of the update, in the order the code sets them.\<close>

definition field_updates :: "pydict \<Rightarrow> pydict \<Rightarrow> pydict" where
  "field_updates extracted_info address =
     set_pair (dict_get address ''country'') ''Enriched_Country__c'' ''Country''
      (set_pair (dict_get address ''postal_code'') ''Enriched_Postal_Code__c'' ''PostalCode''
        (set_pair (dict_get address ''state'') ''Enriched_State__c'' ''State''
          (set_pair (dict_get address ''city'') ''Enriched_City__c'' ''City''
            (set_pair (dict_get address ''street'') ''Enriched_Street__c'' ''Street''
              (set_pair (dict_get extracted_info ''last_name'') ''Enriched_Last_Name__c''
                 ''LastName''
                (set_pair (dict_get extracted_info ''first_name'') ''Enriched_First_Name__c''
                   ''FirstName'' []))))))"

definition address_parts_of :: "pydict \<Rightarrow> pyval list" where
  "address_parts_of address =
     add_part (dict_get address ''country'')
      (add_part (dict_get address ''postal_code'')
        (add_part (dict_get address ''state'')
          (add_part (dict_get address ''city'')
            (add_part (dict_get address ''street'') []))))"

text \<open>
  The update map \<^verbatim>\<open>update_salesforce_lead\<close> builds, or the exception raised while
  building it. \<open>now_text\<close> is the formatted current time.
\<close>

definition build_update_data :: "string \<Rightarrow> pydict \<Rightarrow> exn + pydict" where
  "build_update_data now_text extracted_info =
     (case address_of extracted_info of
        Inl e \<Rightarrow> Inl e
      | Inr address \<Rightarrow>
          let update_data = field_updates extracted_info address;
              address_parts = address_parts_of address
          in case (if address_parts \<noteq> []
                   then (case join '', '' address_parts of
                           Inl e \<Rightarrow> Inl e
                         | Inr full \<Rightarrow>
                             Inr (dict_set update_data ''Enriched_Full_Address__c'' (PStr full)))
                   else Inr update_data) of
               Inl e \<Rightarrow> Inl e
             | Inr update_data \<Rightarrow>
                 Inr (dict_set
                       (dict_set
                         (dict_set
                           (dict_set update_data ''Enrichment_Date__c'' (PStr now_text))
                           ''Enrichment_Confidence__c''
                           (dict_get_default extracted_info ''confidence'' (PInt 0)))
                         ''Enrichment_Source__c'' (PStr ''AI_Web_Scraping''))
                       ''Enrichment_Completed__c'' (PBool True)))"

text \<open>
  \<^verbatim>\<open>update_salesforce_lead\<close>: the exception it raises, if any, and the updates the CRM
  has received.
\<close>

record crm_env =
  crm_login :: "exn option"
  crm_update :: "string \<Rightarrow> pydict \<Rightarrow> exn option"

definition update_salesforce_lead ::
  "crm_env \<Rightarrow> string \<Rightarrow> string \<Rightarrow> pydict \<Rightarrow> (string \<times> pydict) list
    \<Rightarrow> exn option \<times> (string \<times> pydict) list" where
  "update_salesforce_lead env now_text lead_id extracted_info updates =
     (case crm_login env of
        Some e \<Rightarrow> (Some e, updates)
      | None \<Rightarrow>
          (case build_update_data now_text extracted_info of
             Inl e \<Rightarrow> (Some e, updates)
           | Inr update_data \<Rightarrow>
               if update_data \<noteq> []
               then (case crm_update env lead_id update_data of
                       Some e \<Rightarrow> (Some e, updates)
                     | None \<Rightarrow> (None, updates @ [(lead_id, update_data)]))
               else (None, updates)))"

text \<open>
  The seven extracted fields the write-back copies, the value each has in the
  extracted information, and the two CRM fields it is written to.
\<close>

datatype field = First_name | Last_name | Street | City | State | Postal_code | Country

definition field_value :: "pydict \<Rightarrow> pydict \<Rightarrow> field \<Rightarrow> pyval" where
  "field_value extracted_info address f =
     (case f of
        First_name \<Rightarrow> dict_get extracted_info ''first_name''
      | Last_name \<Rightarrow> dict_get extracted_info ''last_name''
      | Street \<Rightarrow> dict_get address ''street''
      | City \<Rightarrow> dict_get address ''city''
      | State \<Rightarrow> dict_get address ''state''
      | Postal_code \<Rightarrow> dict_get address ''postal_code''
      | Country \<Rightarrow> dict_get address ''country'')"

definition standard_field :: "field \<Rightarrow> string" where
  "standard_field f =
     (case f of
        First_name \<Rightarrow> ''FirstName'' | Last_name \<Rightarrow> ''LastName'' | Street \<Rightarrow> ''Street''
      | City \<Rightarrow> ''City'' | State \<Rightarrow> ''State'' | Postal_code \<Rightarrow> ''PostalCode''
      | Country \<Rightarrow> ''Country'')"

definition enriched_field :: "field \<Rightarrow> string" where
  "enriched_field f =
     (case f of
        First_name \<Rightarrow> ''Enriched_First_Name__c'' | Last_name \<Rightarrow> ''Enriched_Last_Name__c''
      | Street \<Rightarrow> ''Enriched_Street__c'' | City \<Rightarrow> ''Enriched_City__c''
      | State \<Rightarrow> ''Enriched_State__c'' | Postal_code \<Rightarrow> ''Enriched_Postal_Code__c''
      | Country \<Rightarrow> ''Enriched_Country__c'')"

definition jane_info :: pydict where
  "jane_info =
     [(''first_name'', PStr ''Jane''), (''last_name'', PStr '' Not Found   ''),
      (''address'', PDict [(''city'', PStr ''Austin''), (''state'', PStr ''N/A'')]),
      (''confidence'', PFloat (Finite (9 / 10)))]"

definition jane_update :: pydict where
  "jane_update =
     [(''Enriched_First_Name__c'', PStr ''Jane''), (''FirstName'', PStr ''Jane''),
      (''Enriched_City__c'', PStr ''Austin''), (''City'', PStr ''Austin''),
      (''Enriched_Full_Address__c'', PStr ''Austin''),
      (''Enrichment_Date__c'', PStr ''2024-01-01T00:00:00.000Z''),
      (''Enrichment_Confidence__c'', PFloat (Finite (9 / 10))),
      (''Enrichment_Source__c'', PStr ''AI_Web_Scraping''),
      (''Enrichment_Completed__c'', PBool True)]"

text \<open>The fields of the update that do not come from a single extracted field.\<close>

definition meta_keys :: "string list" where
  "meta_keys =
     [''Enriched_Full_Address__c'', ''Enrichment_Date__c'', ''Enrichment_Confidence__c'',
      ''Enrichment_Source__c'', ''Enrichment_Completed__c'']"

subsection \<open>Polling worker: main loop\<close>

text \<open>
  The configuration read from the environment at the start of \<^verbatim>\<open>main\<close>:
  \<^verbatim>\<open>AUTO_SHUTDOWN_ENABLED\<close> is true when the variable, \<^verbatim>\<open>'true'\<close> if unset, is
  \<^verbatim>\<open>true\<close> in lower case; \<^verbatim>\<open>IDLE_TIMEOUT_MINUTES\<close> is the integer the variable
  holds, 5 if unset.
\<close>

record loop_config =
  auto_shutdown_enabled :: bool
  idle_timeout_minutes :: int

definition auto_shutdown_of :: "(string \<rightharpoonup> string) \<Rightarrow> bool" where
  "auto_shutdown_of environ =
     (lower (case environ ''AUTO_SHUTDOWN_ENABLED'' of None \<Rightarrow> ''true'' | Some s \<Rightarrow> s)
        = ''true'')"

definition default_config :: loop_config where
  "default_config =
     \<lparr>auto_shutdown_enabled = auto_shutdown_of Map.empty, idle_timeout_minutes = 5\<rparr>"

definition max_idle_polls :: "loop_config \<Rightarrow> int" where
  "max_idle_polls cfg = idle_timeout_minutes cfg * 3"

text \<open>
  What the outside world does to the loop, in order: a termination signal, a poll
  that raises, or a poll that returns, with the list of its messages, each given by
  the outcome of processing it (a result, no result, or an exception). A response
  without messages and a response with an empty list of messages are the same
  empty list to the code.
\<close>

datatype outcome = Enriched | Not_enriched | Raised

datatype poll = Signal | Poll_error | Messages "outcome list"

abbreviation Empty_poll :: poll where
  "Empty_poll \<equiv> Messages []"

record loop_state =
  idle_poll_count :: int
  total_processed :: int

datatype exit_reason = Idle_shutdown | Signal_shutdown

definition initial_state :: loop_state where
  "initial_state = \<lparr>idle_poll_count = 0, total_processed = 0\<rparr>"

fun process_messages :: "outcome list \<Rightarrow> int \<Rightarrow> int" where
  "process_messages [] processed = processed"
| "process_messages (Enriched # ms) processed = process_messages ms (processed + 1)"
| "process_messages (m # ms) processed = process_messages ms processed"

text \<open>
  The \<^verbatim>\<open>while not shutdown\<close> loop of \<^verbatim>\<open>main\<close>, run on a finite list of polls. The
  result is why the loop ended (\<open>None\<close> when it is still running after the last
  poll), the state, and the polls that were not consumed.
\<close>

fun main_loop ::
  "loop_config \<Rightarrow> poll list \<Rightarrow> loop_state \<Rightarrow> exit_reason option \<times> loop_state \<times> poll list" where
  "main_loop cfg [] st = (None, st, [])"
| "main_loop cfg (Signal # polls) st = (Some Signal_shutdown, st, polls)"
| "main_loop cfg (Poll_error # polls) st = main_loop cfg polls st"
| "main_loop cfg (Messages messages # polls) st =
     (if messages = []
      then let st' = st\<lparr>idle_poll_count := idle_poll_count st + 1\<rparr>
           in if auto_shutdown_enabled cfg \<and> max_idle_polls cfg \<le> idle_poll_count st'
              then (Some Idle_shutdown, st', polls)
              else main_loop cfg polls st'
      else main_loop cfg polls
             (st\<lparr>idle_poll_count := 0,
                 total_processed := process_messages messages (total_processed st)\<rparr>))"

subsection \<open>Dashboard: the progress bar\<close>















subsection \<open>Workers: floats to decimals\<close>

text \<open>
  \<^verbatim>\<open>convert_floats_to_decimal\<close>, the same in both workers. \<^verbatim>\<open>str\<close> of a float is
  Python's, taken as the parameter \<open>float_str\<close>; the decimal is kept as that text.
\<close>

fun convert_floats_to_decimal :: "(pyfloat \<Rightarrow> string) \<Rightarrow> pyval \<Rightarrow> pyval" where
  "convert_floats_to_decimal float_str (PFloat x) = PDecimal (float_str x)"
| "convert_floats_to_decimal float_str (PDict kvs) =
     PDict (map (\<lambda>kv. (fst kv, convert_floats_to_decimal float_str (snd kv))) kvs)"
| "convert_floats_to_decimal float_str (PList xs) =
     PList (map (convert_floats_to_decimal float_str) xs)"
| "convert_floats_to_decimal float_str v = v"

text \<open>Whether a value has a float at any depth.\<close>

fun has_float :: "pyval \<Rightarrow> bool" where
  "has_float (PFloat x) = True"
| "has_float (PDict kvs) = list_ex (\<lambda>kv. has_float (snd kv)) kvs"
| "has_float (PList xs) = list_ex has_float xs"
| "has_float v = False"

text \<open>
  What the claim asks of the output \<open>w\<close> for the input \<open>v\<close>: a float has become the
  decimal of its text, a dictionary has the same keys in the same order with each
  value so related, a list has the same length with each element so related, and
  everything else is unchanged.
\<close>

fun converted :: "(pyfloat \<Rightarrow> string) \<Rightarrow> pyval \<Rightarrow> pyval \<Rightarrow> bool" where
  "converted float_str (PFloat x) w = (w = PDecimal (float_str x))"
| "converted float_str (PDict kvs) w =
     (case w of
        PDict kws \<Rightarrow>
          map fst kws = map fst kvs
          \<and> list_all2 (\<lambda>kv kw. converted float_str (snd kv) (snd kw)) kvs kws
      | _ \<Rightarrow> False)"
| "converted float_str (PList xs) w =
     (case w of PList ys \<Rightarrow> list_all2 (converted float_str) xs ys | _ \<Rightarrow> False)"
| "converted float_str v w = (w = v)"

text \<open>
  Concrete environments: a compute service that raises on every placement request,
  with a CRM that returns no record, and with one that returns a single lead.
\<close>

definition failing_compute_env :: orch_env where
  "failing_compute_env =
     \<lparr>new_job_id = ''job-1'', created_at_text = ''2024-01-01T00:00:00.000Z'',
      sf_connect = None, query_all = (\<lambda>q. Inr []), send_message = (\<lambda>k. None),
      run_task = (\<lambda>c. Inl (Exn ServiceError ''ClusterNotFoundException'')),
      job_write = (\<lambda>s. None)\<rparr>"

definition one_lead_env :: orch_env where
  "one_lead_env =
     failing_compute_env
       \<lparr>query_all := (\<lambda>q. Inr [[(''Id'', PStr ''00Q1''), (''Website'', PStr ''https://example.com'')]])\<rparr>"

definition empty_state :: orch_state where
  "empty_state = \<lparr>jobs_table = Map.empty, queue = [], crm_queries = [], ecs_requests = []\<rparr>"









text \<open>
  A scraped site whose main page has 3000 characters and whose contact page is the
  single character \<^verbatim>\<open>~\<close>, which the fixed text of the prompt does not contain.
\<close>

definition long_page :: scraped where
  "long_page =
     \<lparr>url = ''https://example.com'', main_content = replicate 3000 (CHR ''a''),
      additional_pages = [\<lparr>page_url = ''/contact'', page_content = ''~''\<rparr>],
      scraped_at = ''now''\<rparr>"

text \<open>
  A cache holding one entry written at time 0, and two workers whose browser loads
  the page at the first attempt: one looks the site up 23 hours and 59 minutes
  later, the other 24 hours and 1 minute later.
\<close>

definition old_page :: scraped where
  "old_page = \<lparr>url = ''https://example.com'', main_content = ''old text'',
               additional_pages = [], scraped_at = ''t0''\<rparr>"

definition new_page :: scraped where
  "new_page = \<lparr>url = ''https://example.com'', main_content = ''new text'',
               additional_pages = [], scraped_at = ''t1''\<rparr>"

definition cached_site :: cache where
  "cached_site = cache_content True Map.empty 0 ''https://example.com'' old_page"

definition early_env :: worker_env where
  "early_env =
     \<lparr>cache_get_ok = True, cache_put_ok = True,
      browser_session = (\<lambda>i t. Loaded ''new text'' [] None),
      clock_check = 86340000000, clock_scrape_text = ''t1'', clock_cache = 86341000000\<rparr>"

definition late_env :: worker_env where
  "late_env = early_env\<lparr>clock_check := 86460000000, clock_cache := 86461000000\<rparr>"

section \<open>Theorems\<close>

text \<open>
  C4. For every queued count (in particular every non-negative one) the count the
  orchestrator computes, and the count \<^verbatim>\<open>start_ecs_workers\<close> passes to the compute
  service, is \<open>clamp (queued_count div 500) 2 10\<close>; it lies between 2 and 10;
  50 gives 2, 3000 gives 6 and 10000 gives 10; and that count is the one added to
  the requests sent to the compute service.
\<close>

theorem worker_count_clamp:
  "optimal_workers q = clamp (q div 500) 2 10
   \<and> safe_count (optimal_workers q) = clamp (q div 500) 2 10
   \<and> 2 \<le> safe_count (optimal_workers q) \<and> safe_count (optimal_workers q) \<le> 10
   \<and> safe_count (optimal_workers 50) = 2
   \<and> safe_count (optimal_workers 3000) = 6
   \<and> safe_count (optimal_workers 10000) = 10
   \<and> snd (start_ecs_workers ecs_run_task (optimal_workers q) requested)
       = requested @ [clamp (q div 500) 2 10]"
  by (simp add: optimal_workers_def safe_count_def clamp_def start_ecs_workers_def Let_def)

subsection \<open>Evaluation lemmas\<close>

lemma digits_nat_small: "n < 10 \<Longrightarrow> digits_nat n = [digit_char n]"
  by (simp add: digits_nat.simps)

lemma digits_nat_large:
  "10 \<le> n \<Longrightarrow> digits_nat n = digits_nat (n div 10) @ [digit_char (n mod 10)]"
  by (subst digits_nat.simps) simp

lemmas str_int_eval = str_int_def digits_nat_small digits_nat_large digit_char_def

lemma upt_3: "[0..<3] = [0, 1, 2]"
  by (simp add: upt_conv_Cons)

lemma send_leads_all_sent:
  "(\<And>k. k < length leads \<Longrightarrow> send (n + k) = None) \<Longrightarrow>
     send_leads send job_id parameters leads q n =
       (None,
        q @ map (\<lambda>lead. \<lparr>msg_job_id = job_id, msg_lead = lead, msg_parameters = parameters\<rparr>) leads,
        n + length leads)"
proof (induction leads arbitrary: q n)
  case Nil
  then show ?case by simp
next
  case (Cons lead leads)
  have h0: "send n = None" using Cons.prems [of 0] by simp
  have hk: "\<And>k. k < length leads \<Longrightarrow> send (Suc n + k) = None"
    using Cons.prems [of "Suc k" for k] by simp
  show ?case using Cons.IH [OF hk] h0 by simp
qed

subsection \<open>Orchestrator: a failing compute service\<close>

text \<open>
  C1, as stated, fails. With a compute service that raises on the placement request
  and no lead to queue, \<^verbatim>\<open>start_enrichment_job\<close> returns the 200 payload with status
  \<^verbatim>\<open>processing\<close> and zero workers, and the job record reads \<^verbatim>\<open>processing\<close>, not
  \<^verbatim>\<open>failed\<close>: \<^verbatim>\<open>start_ecs_workers\<close> catches the exception and returns 0.
\<close>

theorem compute_failure_counterexample:
  "run_task failing_compute_env 2 = Inl (Exn ServiceError ''ClusterNotFoundException'')
   \<and> fst (start_enrichment_job failing_compute_env (\<lambda>v. [])
            [(''update_salesforce'', PBool False)] empty_state)
       = Inr \<lparr>statusCode = 200,
              body = [(''job_id'', PStr ''job-1''), (''status'', PStr ''processing''),
                      (''leads_found'', PInt 0), (''leads_queued'', PInt 0),
                      (''workers_started'', PInt 0),
                      (''message'',
                       PStr ''Job started successfully. Processing 0 leads with 0 workers.'')]\<rparr>
   \<and> job_attr (snd (start_enrichment_job failing_compute_env (\<lambda>v. [])
                      [(''update_salesforce'', PBool False)] empty_state))
         ''job-1'' ''status'' = Some (PStr ''processing'')
   \<and> ecs_requests (snd (start_enrichment_job failing_compute_env (\<lambda>v. [])
                          [(''update_salesforce'', PBool False)] empty_state)) = [2]"
  by (simp add: start_enrichment_job_def failing_compute_env_def empty_state_def
      fetch_salesforce_leads_def start_ecs_workers_def safe_count_def optimal_workers_def
      success_message_def str_int_eval job_attr_def update_item_def Let_def)

text \<open>
  C1, amended. When the CRM login, the query, every send and every job-store write
  succeed and the compute service raises on the placement request, the error is
  neither recorded nor raised: \<^verbatim>\<open>start_enrichment_job\<close> returns the success payload
  with status \<^verbatim>\<open>processing\<close> and \<^verbatim>\<open>workers_started = 0\<close>, and the job record has
  status \<^verbatim>\<open>processing\<close> and no \<^verbatim>\<open>error\<close> attribute.
\<close>

theorem compute_failure_swallowed:
  assumes "sf_connect env = None"
    and "\<And>s. job_write env s = None"
    and "query_all env (build_query builtin_str parameters) = Inr records"
    and "leads_of_records records = Inr leads"
    and "\<And>k. k < length leads \<Longrightarrow> send_message env k = None"
    and "run_task env (safe_count (optimal_workers (int (length leads)))) = Inl e"
  shows "(\<exists>r. fst (start_enrichment_job env builtin_str parameters st) = Inr r
            \<and> statusCode r = 200
            \<and> dict_get (body r) ''status'' = PStr ''processing''
            \<and> dict_get (body r) ''workers_started'' = PInt 0)
         \<and> job_attr (snd (start_enrichment_job env builtin_str parameters st))
              (new_job_id env) ''status'' = Some (PStr ''processing'')
         \<and> job_attr (snd (start_enrichment_job env builtin_str parameters st))
              (new_job_id env) ''error'' = None"
proof -
  have s: "send_leads (send_message env) (new_job_id env) parameters leads q 0 =
       (None,
        q @ map (\<lambda>lead. \<lparr>msg_job_id = new_job_id env, msg_lead = lead,
                          msg_parameters = parameters\<rparr>) leads,
        length leads)" for q
    using send_leads_all_sent [of leads "send_message env" 0] assms(5) by simp
  have r: "\<exists>r. fst (start_enrichment_job env builtin_str parameters st) = Inr r
           \<and> statusCode r = 200
           \<and> dict_get (body r) ''status'' = PStr ''processing''
           \<and> dict_get (body r) ''workers_started'' = PInt 0"
    using assms(1-4,6)
    by (simp add: start_enrichment_job_def fetch_salesforce_leads_def s start_ecs_workers_def
        Let_def dict_get_def)
  have t: "job_attr (snd (start_enrichment_job env builtin_str parameters st))
             (new_job_id env) ''status'' = Some (PStr ''processing'')"
    using assms(1-4,6)
    by (simp add: start_enrichment_job_def fetch_salesforce_leads_def s start_ecs_workers_def
        Let_def job_attr_def update_item_def)
  have u: "job_attr (snd (start_enrichment_job env builtin_str parameters st))
             (new_job_id env) ''error'' = None"
    using assms(1-4,6)
    by (simp add: start_enrichment_job_def fetch_salesforce_leads_def s start_ecs_workers_def
        Let_def job_attr_def update_item_def)
  from r t u show ?thesis by blast
qed

theorem compute_failure_swallowed_witness:
  "(\<exists>r. fst (start_enrichment_job one_lead_env (\<lambda>v. []) [(''update_salesforce'', PBool True)]
              empty_state) = Inr r
        \<and> statusCode r = 200
        \<and> dict_get (body r) ''status'' = PStr ''processing''
        \<and> dict_get (body r) ''workers_started'' = PInt 0)
   \<and> job_attr (snd (start_enrichment_job one_lead_env (\<lambda>v. [])
                      [(''update_salesforce'', PBool True)] empty_state))
        (new_job_id one_lead_env) ''status'' = Some (PStr ''processing'')
   \<and> job_attr (snd (start_enrichment_job one_lead_env (\<lambda>v. [])
                      [(''update_salesforce'', PBool True)] empty_state))
        (new_job_id one_lead_env) ''error'' = None"
proof -
  let ?records = "[[(''Id'', PStr ''00Q1''), (''Website'', PStr ''https://example.com'')]]"
  have 1: "sf_connect one_lead_env = None"
    by (simp add: one_lead_env_def failing_compute_env_def)
  have 2: "\<And>s. job_write one_lead_env s = None"
    by (simp add: one_lead_env_def failing_compute_env_def)
  have 3: "query_all one_lead_env
             (build_query (\<lambda>v. []) [(''update_salesforce'', PBool True)]) = Inr ?records"
    by (simp add: one_lead_env_def failing_compute_env_def)
  obtain leads where 4: "leads_of_records ?records = Inr leads" and l: "length leads = 1"
    by (simp add: lead_of_record_def)
  have 5: "\<And>k. k < length leads \<Longrightarrow> send_message one_lead_env k = None"
    by (simp add: one_lead_env_def failing_compute_env_def)
  have 6: "run_task one_lead_env (safe_count (optimal_workers (int (length leads))))
             = Inl (Exn ServiceError ''ClusterNotFoundException'')"
    by (simp add: one_lead_env_def failing_compute_env_def)
  show ?thesis
    by (rule compute_failure_swallowed [OF 1 2 3 4 5 6])
qed

subsection \<open>Orchestrator: the default limit\<close>

lemma job_failed_queries [simp]: "crm_queries (snd (job_failed env j e st)) = crm_queries st"
  by (simp add: job_failed_def split: option.splits)

lemma start_job_queries:
  assumes "sf_connect env = None" and "job_write env ''fetching_leads'' = None"
  shows "crm_queries (snd (start_enrichment_job env builtin_str parameters st))
         = crm_queries st @ [build_query builtin_str parameters]"
  using assms
  by (simp add: start_enrichment_job_def fetch_salesforce_leads_def start_ecs_workers_def Let_def
      split: option.splits sum.splits prod.splits)

lemma build_query_default:
  "\<not> truthy (dict_get ev ''limit'') \<Longrightarrow>
   build_query builtin_str (event_parameters ev) = soql_query @ '' LIMIT 10000''"
  by (simp add: build_query_def event_parameters_def dict_get_default_def str_int_eval Let_def)

text \<open>
  C2, as stated, fails. A direct invocation whose parameter object has no \<^verbatim>\<open>limit\<close>
  passes parameters without \<^verbatim>\<open>limit\<close> to \<^verbatim>\<open>start_enrichment_job\<close>, and
  \<^verbatim>\<open>fetch_salesforce_leads\<close> then reads \<^verbatim>\<open>parameters.get('limit', 10000)\<close>: the query
  sent to the CRM ends in \<^verbatim>\<open>LIMIT 10000\<close>.
\<close>

theorem omitted_limit_counterexample:
  "event_parameters [(''update_salesforce'', PBool True)] = [(''update_salesforce'', PBool True)]
   \<and> crm_queries (snd (lambda_handler failing_compute_env (\<lambda>v. [])
          (EventDict [(''update_salesforce'', PBool True)]) empty_state))
      = [soql_query @ '' LIMIT 10000'']"
  by (simp add: lambda_handler_def event_parameters_def dict_get_def dict_get_default_def
      start_enrichment_job_def failing_compute_env_def empty_state_def
      fetch_salesforce_leads_def build_query_def start_ecs_workers_def str_int_eval Let_def
      split: prod.splits sum.splits)

text \<open>
  C2, amended. For every invocation with a parameter object whose \<^verbatim>\<open>limit\<close> is absent
  (or false in Python's sense: \<^verbatim>\<open>None\<close>, 0), scheduled or direct, once the CRM login
  and the first job-store write succeed the query sent to the CRM is the fixed query
  followed by \<^verbatim>\<open>LIMIT 10000\<close>; a direct invocation passes on parameters without
  \<^verbatim>\<open>limit\<close>, and the default comes from \<^verbatim>\<open>fetch_salesforce_leads\<close>.
\<close>

theorem omitted_limit_defaults:
  assumes "\<not> truthy (dict_get ev ''limit'')"
    and "sf_connect env = None" and "job_write env ''fetching_leads'' = None"
  shows "event_parameters ev =
           (if dict_get ev ''source'' = PStr ''aws.events''
            then [(''update_salesforce'', PBool True), (''limit'', PInt 10000)]
            else [(''update_salesforce'', dict_get_default ev ''update_salesforce'' (PBool False))])
     \<and> crm_queries (snd (lambda_handler env builtin_str (EventDict ev) st))
         = crm_queries st @ [soql_query @ '' LIMIT 10000'']"
proof -
  have p: "event_parameters ev =
           (if dict_get ev ''source'' = PStr ''aws.events''
            then [(''update_salesforce'', PBool True), (''limit'', PInt 10000)]
            else [(''update_salesforce'', dict_get_default ev ''update_salesforce'' (PBool False))])"
    using assms(1) by (simp add: event_parameters_def Let_def)
  have q: "crm_queries (snd (lambda_handler env builtin_str (EventDict ev) st))
           = crm_queries (snd (start_enrichment_job env builtin_str (event_parameters ev) st))"
    by (simp add: lambda_handler_def split: prod.splits sum.splits)
  show ?thesis
    using p q start_job_queries [OF assms(2,3), of builtin_str "event_parameters ev" st]
      build_query_default [OF assms(1), of builtin_str]
    by simp
qed

theorem omitted_limit_defaults_witness:
  "event_parameters [(''update_salesforce'', PBool False)] =
     [(''update_salesforce'', PBool False)]
   \<and> crm_queries (snd (lambda_handler one_lead_env (\<lambda>v. [])
          (EventDict [(''update_salesforce'', PBool False)]) empty_state))
       = [soql_query @ '' LIMIT 10000'']"
proof -
  have 1: "\<not> truthy (dict_get [(''update_salesforce'', PBool False)] ''limit'')"
    by (simp add: dict_get_def)
  have 2: "sf_connect one_lead_env = None"
    by (simp add: one_lead_env_def failing_compute_env_def)
  have 3: "job_write one_lead_env ''fetching_leads'' = None"
    by (simp add: one_lead_env_def failing_compute_env_def)
  show ?thesis
    using omitted_limit_defaults [OF 1 2 3, of "\<lambda>v. []" empty_state]
    by (simp add: dict_get_def dict_get_default_def empty_state_def)
qed

subsection \<open>Polling worker: retries of the scraper\<close>








subsection \<open>Workers: truncation of the content in the prompt\<close>

lemma all_content_concat:
  "all_content sd = main_content sd
     @ concat (map (\<lambda>p. [CHR 0x0A, CHR 0x0A] @ page_content p) (additional_pages sd))"
proof -
  have "foldl (\<lambda>acc p. acc @ [CHR 0x0A, CHR 0x0A] @ page_content p) acc ps
        = acc @ concat (map (\<lambda>p. [CHR 0x0A, CHR 0x0A] @ page_content p) ps)" for acc ps
    by (induction ps arbitrary: acc) simp_all
  then show ?thesis by (simp add: all_content_def)
qed

lemma tilde_head: "CHR ''~'' \<notin> set prompt_head"
  by (simp add: prompt_head_def)

lemma tilde_middle: "CHR ''~'' \<notin> set prompt_middle"
  by (simp add: prompt_middle_def)

lemma tilde_tail: "CHR ''~'' \<notin> set prompt_tail"
  by (simp add: prompt_tail_def)

text \<open>
  C3, as stated, fails. The slice \<^verbatim>\<open>all_content[:3000]\<close> is taken after the pages
  have been appended: with a main page of 3000 characters the prompt holds those
  3000 characters and nothing of the contact page.
\<close>

theorem truncation_counterexample:
  "build_prompt (\<lambda>v. []) prompt_tail long_page [(''company'', PStr ''Acme'')]
     = prompt_head @ ''Acme'' @ prompt_middle @ replicate 3000 (CHR ''a'') @ prompt_tail
   \<and> CHR ''~'' \<notin> set (build_prompt (\<lambda>v. []) prompt_tail long_page
                         [(''company'', PStr ''Acme'')])"
  by (simp add: build_prompt_def all_content_concat long_page_def dict_get_default_def
      tilde_head tilde_middle tilde_tail)

text \<open>
  C3, amended. In both workers (they differ in the text after the content only) the
  prompt contains the first 3000 characters of the concatenation of the main content
  and every additional page, each page preceded by two newlines: at most 3000
  characters in all, and when the main content alone has 3000 characters or more,
  its first 3000 characters and nothing of the additional pages.
\<close>

theorem truncation_after_concatenation:
  "build_prompt builtin_str tail sd lead =
     prompt_head @ py_str builtin_str (dict_get_default lead ''company'' (PStr ''Unknown''))
       @ prompt_middle
       @ take 3000 (main_content sd
           @ concat (map (\<lambda>p. [CHR 0x0A, CHR 0x0A] @ page_content p) (additional_pages sd)))
       @ tail
   \<and> length (take 3000 (all_content sd)) \<le> 3000
   \<and> (3000 \<le> length (main_content sd) \<longrightarrow>
        take 3000 (all_content sd) = take 3000 (main_content sd))"
  by (simp add: build_prompt_def all_content_concat)

theorem truncation_after_concatenation_witness:
  "3000 \<le> length (main_content long_page)
   \<and> take 3000 (all_content long_page) = take 3000 (main_content long_page)
   \<and> build_prompt (\<lambda>v. []) prompt_tail_event long_page [] =
       prompt_head @ ''Unknown'' @ prompt_middle @ replicate 3000 (CHR ''a'')
         @ prompt_tail_event"
  using truncation_after_concatenation [of "\<lambda>v. []" prompt_tail_event long_page "[]"]
  by (simp add: long_page_def dict_get_default_def)

subsection \<open>Workers: freshness of the website cache\<close>

lemma div_less_one_iff: "0 < d \<Longrightarrow> ((x::int) div d < 1) = (x < d)"
  using pos_imp_zdiv_pos_iff [of d x] by linarith

lemma fresh_iff: "(timedelta_days (now - t) < 1) = (now - t < 86400000000)"
  by (simp add: timedelta_days_def div_less_one_iff)

lemma check_cache_written:
  "check_cache True (cache_content True table t website c) now website =
     (if now - t < 86400000000 then Some c else None)"
  by (simp add: check_cache_def cache_content_def fresh_iff)

lemma scrape_events_nonempty: "snd (scrape_website b u n 3) \<noteq> []"
  by (simp add: scrape_website_def upt_3 Let_def split: attempt.splits option.splits prod.splits)

text \<open>
  C6. Take a cache entry written at time \<open>t\<close> (in microseconds) and a lookup whose
  read of the store succeeds. When less than 24 hours have passed (86400000000
  microseconds) the pipeline uses the cached content, leaves the cache as it is and
  does not scrape. When 24 hours or more have passed the pipeline scrapes (its
  result and events are the scraper's, and there is at least one attempt); the
  entry is never deleted, and when the scrape gives content and the write succeeds
  the entry is overwritten with that content and the time of the write.
\<close>

theorem cache_freshness:
  assumes "cache_get_ok env" and "written = cache_content True table t website c"
  shows "(clock_check env - t < 86400000000 \<longrightarrow>
            process_lead_content env written website = (Some c, written, []))
       \<and> (86400000000 \<le> clock_check env - t \<longrightarrow>
            (\<exists>r evs new_table. process_lead_content env written website = (r, new_table, evs)
               \<and> (r, evs) = scrape_website (browser_session env) website (clock_scrape_text env) 3
               \<and> evs \<noteq> []
               \<and> website \<in> dom new_table
               \<and> (\<forall>sd. r = Some sd \<and> cache_put_ok env \<longrightarrow>
                     new_table website
                       = Some \<lparr>content = sd, cached_at = Some (clock_cache env)\<rparr>)))"
proof -
  obtain r evs where
    s: "scrape_website (browser_session env) website (clock_scrape_text env) 3 = (r, evs)"
    by (cases "scrape_website (browser_session env) website (clock_scrape_text env) 3")
  have ne: "evs \<noteq> []"
    using scrape_events_nonempty [of "browser_session env" website "clock_scrape_text env"] s
    by simp
  have fresh: "clock_check env - t < 86400000000 \<Longrightarrow>
            process_lead_content env written website = (Some c, written, [])"
    using assms by (simp add: process_lead_content_def check_cache_written)
  have stale: "86400000000 \<le> clock_check env - t \<Longrightarrow>
      process_lead_content env written website =
        (r, case r of None \<Rightarrow> written
             | Some sd \<Rightarrow>
                 cache_content (cache_put_ok env) written (clock_cache env) website sd, evs)"
    using assms s
    by (simp add: process_lead_content_def check_cache_written split: option.splits)
  have d: "website \<in> dom (case r of None \<Rightarrow> written
             | Some sd \<Rightarrow>
                 cache_content (cache_put_ok env) written (clock_cache env) website sd)"
    using assms(2) by (simp add: cache_content_def split: option.splits)
  have o: "r = Some sd \<and> cache_put_ok env \<Longrightarrow>
     (case r of None \<Rightarrow> written
       | Some sd \<Rightarrow>
           cache_content (cache_put_ok env) written (clock_cache env) website sd) website
      = Some \<lparr>content = sd, cached_at = Some (clock_cache env)\<rparr>" for sd
    by (auto simp add: cache_content_def)
  show ?thesis
    using fresh stale s ne d o by auto
qed

theorem cache_freshness_witness:
  "process_lead_content early_env cached_site ''https://example.com''
     = (Some old_page, cached_site, [])
   \<and> process_lead_content late_env cached_site ''https://example.com''
     = (Some new_page,
        cached_site(''https://example.com'' \<mapsto>
          \<lparr>content = new_page, cached_at = Some 86461000000\<rparr>),
        [Attempt 0, Goto 0 20000])"
proof -
  have g: "cache_get_ok early_env" "cache_get_ok late_env"
    by (simp_all add: early_env_def late_env_def)
  have early: "process_lead_content early_env cached_site ''https://example.com''
     = (Some old_page, cached_site, [])"
    using cache_freshness [OF g(1) cached_site_def] by (simp add: early_env_def)
  have sc: "scrape_website (browser_session late_env) ''https://example.com''
              (clock_scrape_text late_env) 3 = (Some new_page, [Attempt 0, Goto 0 20000])"
    by (simp add: scrape_website_def upt_3 late_env_def early_env_def new_page_def
        follow_links_def)
  have late: "process_lead_content late_env cached_site ''https://example.com''
     = (Some new_page,
        cached_site(''https://example.com'' \<mapsto>
          \<lparr>content = new_page, cached_at = Some 86461000000\<rparr>),
        [Attempt 0, Goto 0 20000])"
    using cache_freshness [OF g(2) cached_site_def] sc
    by (auto simp add: late_env_def early_env_def cached_site_def cache_content_def
        process_lead_content_def check_cache_def timedelta_days_def)
  from early late show ?thesis by simp
qed

subsection \<open>Polling worker: validity filter of the write-back\<close>

lemma map_of_dict_set: "map_of (dict_set d k v) = (map_of d)(k \<mapsto> v)"
  by (induction d k v rule: dict_set.induct) auto

lemma map_of_set_pair:
  "map_of (set_pair v e st d) k =
     (if is_valid_value v \<and> (k = e \<or> k = st) then Some v else map_of d k)"
  by (simp add: set_pair_def map_of_dict_set)

lemma invalid_not_valid:
  "strip (lower s) \<in> set invalid_strings \<Longrightarrow> \<not> is_valid_value (PStr s)"
  by (simp add: is_valid_value_def)

lemma build_update_data_fields:
  assumes "build_update_data now_text info = Inr u" and "k \<notin> set meta_keys"
  shows "\<exists>address. address_of info = Inr address
           \<and> map_of u k = map_of (field_updates info address) k"
  using assms
  by (auto simp add: build_update_data_def meta_keys_def map_of_dict_set Let_def
      split: sum.splits if_splits)

lemma parts_valid: "v \<in> set (address_parts_of address) \<Longrightarrow> is_valid_value v"
  by (auto simp add: address_parts_of_def add_part_def split: if_splits)

lemma jane_valid: "is_valid_value (PStr ''Jane'')"
  by code_simp

text \<open>
  C7. Whenever the polling worker's write-back builds an update map: for each of
  the seven fields, a value that is a string whose lowercased and stripped form is
  one of \<^verbatim>\<open>not found\<close>, \<^verbatim>\<open>unknown\<close>, \<^verbatim>\<open>n/a\<close>, \<^verbatim>\<open>none\<close>, \<^verbatim>\<open>null\<close> or empty is stored
  under neither the standard nor the enriched field and is no part of the full
  address; a first name \<^verbatim>\<open>Jane\<close> is stored under \<^verbatim>\<open>FirstName\<close> and under
  \<^verbatim>\<open>Enriched_First_Name__c\<close>.
\<close>

theorem invalid_values_excluded:
  assumes b: "build_update_data now_text info = Inr u"
    and a: "address_of info = Inr address"
  shows "(field_value info address f = PStr s \<and> strip (lower s) \<in> set invalid_strings \<longrightarrow>
            map_of u (standard_field f) = None \<and> map_of u (enriched_field f) = None
            \<and> PStr s \<notin> set (address_parts_of address))
       \<and> (field_value info address First_name = PStr ''Jane'' \<longrightarrow>
            map_of u ''FirstName'' = Some (PStr ''Jane'')
            \<and> map_of u ''Enriched_First_Name__c'' = Some (PStr ''Jane''))"
proof -
  have look: "k \<notin> set meta_keys \<Longrightarrow> map_of u k = map_of (field_updates info address) k" for k
    using build_update_data_fields [OF b] a by auto
  have 1: "field_value info address f = PStr s \<and> strip (lower s) \<in> set invalid_strings \<Longrightarrow>
            map_of u (standard_field f) = None \<and> map_of u (enriched_field f) = None"
    using invalid_not_valid [of s]
    by (cases f)
       (simp_all add: look meta_keys_def field_value_def standard_field_def enriched_field_def
          field_updates_def map_of_set_pair)
  have 2: "field_value info address f = PStr s \<and> strip (lower s) \<in> set invalid_strings \<Longrightarrow>
            PStr s \<notin> set (address_parts_of address)"
    using invalid_not_valid [of s] parts_valid [of "PStr s" address] by blast
  have 3: "field_value info address First_name = PStr ''Jane'' \<Longrightarrow>
            map_of u ''FirstName'' = Some (PStr ''Jane'')
            \<and> map_of u ''Enriched_First_Name__c'' = Some (PStr ''Jane'')"
    using jane_valid
    by (simp add: look meta_keys_def field_value_def field_updates_def map_of_set_pair)
  from 1 2 3 show ?thesis by blast
qed

theorem invalid_values_excluded_witness:
  "build_update_data ''2024-01-01T00:00:00.000Z'' jane_info = Inr jane_update
   \<and> map_of jane_update ''LastName'' = None
   \<and> map_of jane_update ''Enriched_Last_Name__c'' = None
   \<and> map_of jane_update ''FirstName'' = Some (PStr ''Jane'')
   \<and> map_of jane_update ''Enriched_First_Name__c'' = Some (PStr ''Jane'')"
proof -
  have b: "build_update_data ''2024-01-01T00:00:00.000Z'' jane_info = Inr jane_update"
    by code_simp
  have a: "address_of jane_info = Inr [(''city'', PStr ''Austin''), (''state'', PStr ''N/A'')]"
    by (simp add: address_of_def jane_info_def dict_get_def)
  have v: "strip (lower '' Not Found   '') \<in> set invalid_strings"
    by code_simp
  show ?thesis
    using invalid_values_excluded [OF b a, of Last_name "'' Not Found   ''"] v b
    by (simp add: field_value_def jane_info_def dict_get_def standard_field_def
        enriched_field_def)
qed

subsection \<open>Polling worker: idle shutdown\<close>

lemma auto_default: "auto_shutdown_enabled default_config"
  by (simp add: default_config_def auto_shutdown_of_def lower_def lower_char_def
      upper_chars_def lower_chars_def)

lemma max_default: "max_idle_polls default_config = 15"
  by (simp add: default_config_def max_idle_polls_def)

lemma replicate_15: "replicate 15 x @ xs = replicate 14 x @ (x # xs)"
proof -
  have "(15::nat) = Suc 14" by simp
  then show ?thesis by (simp only: replicate_Suc replicate_app_Cons_same append_Cons)
qed

lemma idle_run:
  "idle_poll_count st + int n < max_idle_polls cfg \<Longrightarrow>
   main_loop cfg (replicate n Empty_poll @ polls) st =
     main_loop cfg polls (st\<lparr>idle_poll_count := idle_poll_count st + int n\<rparr>)"
proof (induction n arbitrary: st)
  case 0
  then show ?case by simp
next
  case (Suc n)
  have "idle_poll_count (st\<lparr>idle_poll_count := idle_poll_count st + 1\<rparr>) + int n
          < max_idle_polls cfg"
    using Suc.prems by simp
  from Suc.IH [OF this] Suc.prems show ?case
    by (simp add: Let_def add.assoc)
qed

lemma never_idle:
  "\<not> auto_shutdown_enabled cfg \<Longrightarrow> fst (main_loop cfg polls st) \<noteq> Some Idle_shutdown"
  by (induction cfg polls st rule: main_loop.induct) (simp_all add: Let_def)

lemma idle_exit:
  "idle_poll_count st = 0 \<Longrightarrow>
   main_loop default_config (replicate 15 Empty_poll @ polls) st
     = (Some Idle_shutdown, st\<lparr>idle_poll_count := 15\<rparr>, polls)"
  using idle_run [of st 14 default_config "Empty_poll # polls"]
  by (simp add: replicate_15 max_default auto_default Let_def)

text \<open>
  C8. With the default configuration (auto-shutdown enabled, 5 minutes, hence 15
  idle polls): starting with an idle counter of zero, 15 empty polls in a row end
  the loop at the fifteenth, leaving the polls after it unconsumed, and fewer than
  15 do not end it; a poll that returns at least one message sets the idle counter
  to zero, so that after it again exactly 15 empty polls are needed; with
  auto-shutdown disabled no sequence of polls ends the loop for idleness.
\<close>

theorem idle_shutdown:
  "(idle_poll_count st = 0 \<longrightarrow>
      main_loop default_config (replicate 15 Empty_poll @ polls) st
        = (Some Idle_shutdown, st\<lparr>idle_poll_count := 15\<rparr>, polls))
   \<and> (idle_poll_count st = 0 \<and> n < 15 \<longrightarrow>
      main_loop default_config (replicate n Empty_poll) st
        = (None, st\<lparr>idle_poll_count := int n\<rparr>, []))
   \<and> (ms \<noteq> [] \<longrightarrow>
      main_loop cfg (Messages ms # polls) st
        = main_loop cfg polls
            \<lparr>idle_poll_count = 0, total_processed = process_messages ms (total_processed st)\<rparr>)
   \<and> (ms \<noteq> [] \<longrightarrow>
      main_loop default_config (Messages ms # replicate 15 Empty_poll @ polls) st
        = (Some Idle_shutdown,
           \<lparr>idle_poll_count = 15, total_processed = process_messages ms (total_processed st)\<rparr>,
           polls))
   \<and> (\<not> auto_shutdown_enabled cfg \<longrightarrow> fst (main_loop cfg polls st) \<noteq> Some Idle_shutdown)"
proof -
  have b: "idle_poll_count st = 0 \<and> n < 15 \<Longrightarrow>
      main_loop default_config (replicate n Empty_poll) st
        = (None, st\<lparr>idle_poll_count := int n\<rparr>, [])"
    using idle_run [of st n default_config "[]"] by (simp add: max_default)
  have c: "ms \<noteq> [] \<Longrightarrow> main_loop cfg (Messages ms # polls) st
        = main_loop cfg polls
            \<lparr>idle_poll_count = 0, total_processed = process_messages ms (total_processed st)\<rparr>"
    by (cases st) simp
  have d: "ms \<noteq> [] \<Longrightarrow>
      main_loop default_config (Messages ms # replicate 15 Empty_poll @ polls) st
        = (Some Idle_shutdown,
           \<lparr>idle_poll_count = 15, total_processed = process_messages ms (total_processed st)\<rparr>,
           polls)"
    using idle_exit [of "\<lparr>idle_poll_count = 0,
        total_processed = process_messages ms (total_processed st)\<rparr>" polls]
    by (cases st) simp
  from idle_exit [of st polls] b c d never_idle [of cfg polls st] show ?thesis by blast
qed

theorem idle_shutdown_witness:
  "main_loop default_config (replicate 15 Empty_poll @ [Messages [Enriched]]) initial_state
     = (Some Idle_shutdown, \<lparr>idle_poll_count = 15, total_processed = 0\<rparr>, [Messages [Enriched]])
   \<and> main_loop default_config (replicate 14 Empty_poll) initial_state
     = (None, \<lparr>idle_poll_count = 14, total_processed = 0\<rparr>, [])
   \<and> main_loop default_config (Messages [Enriched] # replicate 15 Empty_poll @ [Signal])
        \<lparr>idle_poll_count = 9, total_processed = 3\<rparr>
     = (Some Idle_shutdown, \<lparr>idle_poll_count = 15, total_processed = 4\<rparr>, [Signal])
   \<and> fst (main_loop (default_config\<lparr>auto_shutdown_enabled := False\<rparr>)
            [Messages [Enriched]] initial_state) \<noteq> Some Idle_shutdown"
  using idle_shutdown [where st = initial_state and polls = "[Messages [Enriched]]" and n = 14
      and cfg = "default_config\<lparr>auto_shutdown_enabled := False\<rparr>" and ms = "[Enriched]"]
    idle_shutdown [where st = "\<lparr>idle_poll_count = 9, total_processed = 3\<rparr>"
      and polls = "[Signal]" and ms = "[Enriched]"]
  by (simp add: initial_state_def)

subsection \<open>Dashboard: rendering of the progress bar\<close>






















subsection \<open>Workers: conversion of floats to decimals\<close>

lemma convert_no_float: "\<not> has_float (convert_floats_to_decimal fs v)"
  by (induction fs v rule: convert_floats_to_decimal.induct) (auto simp add: list_ex_iff)

lemma convert_converted: "converted fs v (convert_floats_to_decimal fs v)"
  by (induction fs v rule: convert_floats_to_decimal.induct)
     (auto simp add: list_all2_map2 list_all2_same comp_def)

lemma convert_without_float: "\<not> has_float v \<Longrightarrow> convert_floats_to_decimal fs v = v"
  by (induction fs v rule: convert_floats_to_decimal.induct)
     (auto simp add: list_ex_iff map_idI)

text \<open>
  C10. \<^verbatim>\<open>convert_floats_to_decimal\<close> is a total function on nested values of
  dictionaries, lists, floats and other scalars. Its output is the input with every
  float replaced by the decimal of its text and with all keys, list lengths and
  other leaves unchanged; the output has no float at any depth; and converting
  twice gives what converting once gives.
\<close>

theorem convert_floats_structure:
  "converted fs v (convert_floats_to_decimal fs v)
   \<and> \<not> has_float (convert_floats_to_decimal fs v)
   \<and> convert_floats_to_decimal fs (convert_floats_to_decimal fs v)
       = convert_floats_to_decimal fs v"
  using convert_no_float convert_converted convert_without_float by blast

end
